theory Spec2Isabelle
  imports Complex_Main
begin

section \<open>Python primitives used by the sources\<close>

text \<open>
  A Python \<open>str\<close> is a sequence of Unicode code points: it is modelled as the list of
  its code points (\<open>ord(c)\<close>, an integer, for each character \<open>c\<close>), so that \<open>length\<close>
  is Python's \<open>len\<close>. The function \<open>py\<close> reads a string literal as such a list.
  Integers are Python's unbounded \<open>int\<close>. An exception is a value of type \<open>exn\<close>, and
  a function that may raise returns \<open>exn + 'a\<close>.
\<close>

type_synonym str = "int list"

definition py :: "string \<Rightarrow> str" where
  "py s = map of_char s"

datatype exn = ValueError | IndexError | BackendError

text \<open>
  \<open>str.isspace\<close> on one character: the code points that CPython treats as
  whitespace (tab to carriage return, the four separators, the blank, NEL, the
  no-break space and the Unicode space separators).
\<close>

definition isspace :: "int \<Rightarrow> bool" where
  "isspace c =
     ((9 \<le> c \<and> c \<le> 13) \<or> (28 \<le> c \<and> c \<le> 32) \<or> c = 0x85 \<or> c = 0xA0 \<or> c = 0x1680
      \<or> (0x2000 \<le> c \<and> c \<le> 0x200A) \<or> c = 0x2028 \<or> c = 0x2029 \<or> c = 0x202F
      \<or> c = 0x205F \<or> c = 0x3000)"

text \<open>\<open>s.strip()\<close>: whitespace removed at both ends.\<close>

definition strip :: "str \<Rightarrow> str" where
  "strip s = rev (dropWhile isspace (rev (dropWhile isspace s)))"

text \<open>
  \<open>s.split('\n\n')\<close>: the fields between the non-overlapping occurrences of two
  newlines, found from left to right. The result is never empty: a string without the
  separator is its own single field.
\<close>

definition newline :: int where
  "newline = 10"

fun cons_field :: "int \<Rightarrow> str list \<Rightarrow> str list" where
  "cons_field c [] = [[c]]"
| "cons_field c (f # fs) = (c # f) # fs"

fun split_blank :: "str \<Rightarrow> str list" where
  "split_blank [] = [[]]"
| "split_blank [c] = [[c]]"
| "split_blank (c # d # cs) =
     (if c = newline \<and> d = newline then [] # split_blank cs
      else cons_field c (split_blank (d # cs)))"

text \<open>
  A slice bound of \<open>s[a:b]\<close> on a sequence of length \<open>n\<close>: a negative bound counts from
  the end, and every bound is clamped into \<open>0..n\<close>.
\<close>

definition slice_bound :: "nat \<Rightarrow> int \<Rightarrow> nat" where
  "slice_bound n i = (if i < 0 then nat (max 0 (int n + i)) else min n (nat i))"

definition py_slice :: "'a list \<Rightarrow> int \<Rightarrow> int \<Rightarrow> 'a list" where
  "py_slice xs a b =
     (let lo = slice_bound (length xs) a; hi = slice_bound (length xs) b
      in take (hi - lo) (drop lo xs))"

text \<open>
  \<open>range(start, stop, step)\<close>: a zero step raises \<open>ValueError\<close>; a positive step
  counts up while below \<open>stop\<close>, a negative step counts down while above it.
\<close>

function range_up :: "int \<Rightarrow> int \<Rightarrow> int \<Rightarrow> int list" where
  "range_up i stop step =
     (if 0 < step \<and> i < stop then i # range_up (i + step) stop step else [])"
  by pat_completeness auto
termination
  by (relation "measure (\<lambda>(i, stop, step). nat (stop - i))") auto

function range_down :: "int \<Rightarrow> int \<Rightarrow> int \<Rightarrow> int list" where
  "range_down i stop step =
     (if step < 0 \<and> stop < i then i # range_down (i + step) stop step else [])"
  by pat_completeness auto
termination
  by (relation "measure (\<lambda>(i, stop, step). nat (i - stop))") auto

declare range_up.simps [simp del] range_down.simps [simp del]

definition py_range :: "int \<Rightarrow> int \<Rightarrow> int \<Rightarrow> exn + int list" where
  "py_range start stop step =
     (if step = 0 then Inl ValueError
      else if step < 0 then Inr (range_down start stop step)
      else Inr (range_up start stop step))"

section \<open>text\_chunker.py\<close>

text \<open>
  The loop \<open>for i in range(0, len(current_chunk), chunk_size - chunk_overlap):
  all_chunks.append(current_chunk[i:i + chunk_size])\<close>, returning the windows it appends.
  \<open>range\<close> raises before the first window when the stride is zero.
\<close>

definition hard_split :: "str \<Rightarrow> int \<Rightarrow> int \<Rightarrow> exn + str list" where
  "hard_split current_chunk chunk_size chunk_overlap =
     (case py_range 0 (int (length current_chunk)) (chunk_size - chunk_overlap) of
        Inl e \<Rightarrow> Inl e
      | Inr is \<Rightarrow> Inr (map (\<lambda>i. py_slice current_chunk i (i + chunk_size)) is))"

text \<open>
  The chunks a buffer contributes when it is flushed: the \<open>if len(current_chunk) >
  chunk_size: ... else: all_chunks.append(current_chunk)\<close> of lines 17-21 and 32-36.
\<close>

definition emit :: "str \<Rightarrow> int \<Rightarrow> int \<Rightarrow> exn + str list" where
  "emit current_chunk chunk_size chunk_overlap =
     (if int (length current_chunk) > chunk_size
      then hard_split current_chunk chunk_size chunk_overlap
      else Inr [current_chunk])"

text \<open>The state of the loop: \<open>all_chunks\<close> and \<open>current_chunk\<close>.\<close>

type_synonym chunker_state = "str list \<times> str"

text \<open>One iteration of \<open>for paragraph in paragraphs\<close> (lines 13-29).\<close>

fun chunk_step :: "int \<Rightarrow> int \<Rightarrow> chunker_state \<Rightarrow> str \<Rightarrow> exn + chunker_state" where
  "chunk_step chunk_size chunk_overlap (all_chunks, current_chunk) paragraph =
     (if int (length current_chunk) + int (length paragraph) + 1 < chunk_size
      then Inr (all_chunks,
                current_chunk @ (if current_chunk \<noteq> [] then py '' '' else []) @ paragraph)
      else
        (case (if current_chunk \<noteq> [] then emit current_chunk chunk_size chunk_overlap
               else Inr []) of
           Inl e \<Rightarrow> Inl e
         | Inr flushed \<Rightarrow>
             (if int (length paragraph) > chunk_size
              then (case hard_split paragraph chunk_size chunk_overlap of
                      Inl e \<Rightarrow> Inl e
                    | Inr windows \<Rightarrow> Inr (all_chunks @ flushed @ windows, []))
              else Inr (all_chunks @ flushed, paragraph))))"

fun chunk_loop :: "int \<Rightarrow> int \<Rightarrow> chunker_state \<Rightarrow> str list \<Rightarrow> exn + chunker_state" where
  "chunk_loop chunk_size chunk_overlap st [] = Inr st"
| "chunk_loop chunk_size chunk_overlap st (paragraph # rest) =
     (case chunk_step chunk_size chunk_overlap st paragraph of
        Inl e \<Rightarrow> Inl e
      | Inr st' \<Rightarrow> chunk_loop chunk_size chunk_overlap st' rest)"

text \<open>\<open>[p.strip() for p in text.split('\n\n') if p.strip()]\<close>\<close>

definition paragraphs_of :: "str \<Rightarrow> str list" where
  "paragraphs_of text = map strip (filter (\<lambda>p. strip p \<noteq> []) (split_blank text))"

text \<open>
  Lines 4-36 of \<open>simple_chunker\<close>: the list \<open>all_chunks\<close> as it stands before the
  \<open>return\<close> statement.
\<close>

definition all_chunks_of :: "str \<Rightarrow> int \<Rightarrow> int \<Rightarrow> exn + str list" where
  "all_chunks_of text chunk_size chunk_overlap =
     (case chunk_loop chunk_size chunk_overlap ([], []) (paragraphs_of text) of
        Inl e \<Rightarrow> Inl e
      | Inr (all_chunks, current_chunk) \<Rightarrow>
          (case (if current_chunk \<noteq> [] then emit current_chunk chunk_size chunk_overlap
                 else Inr []) of
             Inl e \<Rightarrow> Inl e
           | Inr flushed \<Rightarrow> Inr (all_chunks @ flushed)))"

definition simple_chunker :: "str \<Rightarrow> int \<Rightarrow> int \<Rightarrow> exn + str list" where
  "simple_chunker text chunk_size chunk_overlap =
     (if text = [] then Inr []
      else (case all_chunks_of text chunk_size chunk_overlap of
              Inl e \<Rightarrow> Inl e
            | Inr all_chunks \<Rightarrow> Inr (filter (\<lambda>chunk. strip chunk \<noteq> []) all_chunks)))"

section \<open>Invariants of the chunking loop\<close>

text \<open>Under a valid configuration every emitted chunk and the buffer fit the chunk size.\<close>

definition bounded_state :: "int \<Rightarrow> chunker_state \<Rightarrow> bool" where
  "bounded_state csize st =
     ((\<forall>c\<in>set (fst st). int (length c) \<le> csize) \<and> int (length (snd st)) \<le> csize)"

text \<open>Under any configuration a buffer that is not empty fits the chunk size.\<close>

definition fits :: "int \<Rightarrow> chunker_state \<Rightarrow> bool" where
  "fits csize st = (snd st = [] \<or> int (length (snd st)) \<le> csize)"

text \<open>The number of chunks the state stands for: those emitted and the buffer, if any.\<close>

definition pending :: "chunker_state \<Rightarrow> nat" where
  "pending st = length (fst st) + (if snd st = [] then 0 else 1)"

text \<open>
  The relation between the run with the larger chunk size (\<open>st1\<close>) and the run with the
  smaller one (\<open>st2\<close>) on the same paragraphs: the first never stands for more chunks, and
  at equal counts its buffer is the shorter one.
\<close>

definition behind :: "chunker_state \<Rightarrow> chunker_state \<Rightarrow> bool" where
  "behind st1 st2 =
     ((snd st1 = [] \<longrightarrow> snd st2 = [])
      \<and> (pending st1 < pending st2
         \<or> (pending st1 = pending st2 \<and> length (snd st1) \<le> length (snd st2))))"

section \<open>main.py: the configuration\<close>

text \<open>The constant that \<open>main.py\<close> imports from \<open>vector_store_manager.py\<close> (line 10 there).\<close>

definition DEFAULT_COLLECTION_NAME :: str where
  "DEFAULT_COLLECTION_NAME = py ''insightlens_documents''"

text \<open>The dictionary \<open>APP_STATE\<close> and its initial value (lines 33-40).\<close>

record app_state =
  api_key_loaded :: bool
  current_collection :: str
  last_loaded_doc_path :: "str option"
  chunk_size :: int
  chunk_overlap :: int
  top_k_retrieval :: int

definition APP_STATE :: app_state where
  "APP_STATE = \<lparr>api_key_loaded = False, current_collection = DEFAULT_COLLECTION_NAME,
     last_loaded_doc_path = None, chunk_size = 1000, chunk_overlap = 150, top_k_retrieval = 3\<rparr>"

text \<open>The lines \<open>configure\<close> echoes, one constructor for each \<open>typer.echo\<close>.\<close>

datatype echo =
    Chunk_size_set int | Chunk_overlap_set int | Top_k_set int
  | Current_configuration | Show_chunk_size int | Show_chunk_overlap int | Show_top_k int
  | Use_options

text \<open>The truth value of an optional integer: \<open>None\<close> and \<open>0\<close> are false.\<close>

definition truthy :: "int option \<Rightarrow> bool" where
  "truthy v = (case v of None \<Rightarrow> False | Some n \<Rightarrow> n \<noteq> 0)"

text \<open>
  The command \<open>configure\<close> (lines 243-263): every option that is given is stored as it
  is; the state and the echoed lines are returned. The options \<open>chunk_size\<close> and
  \<open>chunk_overlap\<close> are written \<open>chunk_size_opt\<close> and \<open>chunk_overlap_opt\<close>, apart from the
  fields of the state.
\<close>

definition configure ::
  "app_state \<Rightarrow> int option \<Rightarrow> int option \<Rightarrow> int option \<Rightarrow> app_state \<times> echo list" where
  "configure st chunk_size_opt chunk_overlap_opt top_k =
     (let (st1, out1) = (case chunk_size_opt of
              None \<Rightarrow> (st, [])
            | Some v \<Rightarrow> (st\<lparr>chunk_size := v\<rparr>, [Chunk_size_set v]));
          (st2, out2) = (case chunk_overlap_opt of
              None \<Rightarrow> (st1, out1)
            | Some v \<Rightarrow> (st1\<lparr>chunk_overlap := v\<rparr>, out1 @ [Chunk_overlap_set v]));
          (st3, out3) = (case top_k of
              None \<Rightarrow> (st2, out2)
            | Some v \<Rightarrow> (st2\<lparr>top_k_retrieval := v\<rparr>, out2 @ [Top_k_set v]))
      in if \<not> (truthy chunk_size_opt \<or> truthy chunk_overlap_opt \<or> truthy top_k)
         then (st3, out3 @ [Current_configuration, Show_chunk_size (chunk_size st3),
                 Show_chunk_overlap (chunk_overlap st3), Show_top_k (top_k_retrieval st3),
                 Use_options])
         else (st3, out3))"

text \<open>
  The call of the chunker in \<open>load\<close> and \<open>summarize_doc\<close> (lines 72 and 154):
  \<open>simple_chunker(raw_text, chunk_size=APP_STATE["chunk_size"],
  chunk_overlap=APP_STATE["chunk_overlap"])\<close>.
\<close>

definition chunk_with_state :: "app_state \<Rightarrow> str \<Rightarrow> exn + str list" where
  "chunk_with_state st raw_text = simple_chunker raw_text (chunk_size st) (chunk_overlap st)"

section \<open>vector\_store\_manager.py\<close>

text \<open>
  The ChromaDB client is a collaborator outside the repository: it is a parameter of the
  model. \<open>'db\<close> is the persisted state of the client, \<open>'col\<close> a collection object. An
  operation that writes returns the new state together with its outcome, so that a
  failing write may still have changed the state; an operation that only reads returns
  its outcome.
\<close>

datatype scalar = Text str | Number int

type_synonym metadata = "(str \<times> scalar) list"

type_synonym embedding = "real list"

record add_request =
  req_embeddings :: "embedding list"
  req_documents :: "str list"
  req_metadatas :: "metadata list"
  req_ids :: "str list"

record raw_result =
  res_ids :: "str list list option"
  res_documents :: "str option list list option"
  res_metadatas :: "metadata option list list option"
  res_distances :: "real list list option"

record ('db, 'col) chroma_client =
  get_collection :: "'db \<Rightarrow> str \<Rightarrow> exn + 'col"
  create_collection :: "'db \<Rightarrow> str \<Rightarrow> 'db \<times> (exn + 'col)"
  collection_count :: "'db \<Rightarrow> 'col \<Rightarrow> exn + nat"
  collection_add :: "'db \<Rightarrow> 'col \<Rightarrow> add_request \<Rightarrow> 'db \<times> (exn + unit)"
  collection_query :: "'db \<Rightarrow> 'col \<Rightarrow> embedding list \<Rightarrow> int \<Rightarrow> exn + raw_result option"

text \<open>The lines the module prints, one constructor for each \<open>print\<close> statement.\<close>

datatype log =
    Info_using_existing str
  | Info_not_found_creating str exn
  | Info_created str
  | Error_chunks_embeddings
  | Warning_doc_ids_mismatch
  | Warning_metadatas_mismatch nat nat
  | Info_added nat str
  | Info_current_count str nat
  | Error_adding exn
  | Warning_empty_collection str
  | Error_get_or_create str exn
  | Info_no_results str
  | Info_no_valid_results
  | Error_querying str exn

text \<open>
  What a call can change: the client's persisted state, the source of randomness behind
  \<open>uuid.uuid4()\<close>, and the lines printed so far.
\<close>

record ('db, 'rng) world =
  store :: 'db
  entropy :: 'rng
  printed :: "log list"

definition say :: "log \<Rightarrow> ('db, 'rng) world \<Rightarrow> ('db, 'rng) world" where
  "say line w = w\<lparr>printed := printed w @ [line]\<rparr>"

definition get_or_create_collection ::
  "('db, 'col) chroma_client \<Rightarrow> ('db, 'rng) world \<Rightarrow> str \<Rightarrow> ('db, 'rng) world \<times> (exn + 'col)" where
  "get_or_create_collection client w collection_name =
     (case get_collection client (store w) collection_name of
        Inr collection \<Rightarrow> (say (Info_using_existing collection_name) w, Inr collection)
      | Inl e \<Rightarrow>
          (let w1 = say (Info_not_found_creating collection_name e) w
           in case create_collection client (store w1) collection_name of
                (db, Inl e') \<Rightarrow> (w1\<lparr>store := db\<rparr>, Inl e')
              | (db, Inr collection) \<Rightarrow>
                  (say (Info_created collection_name) (w1\<lparr>store := db\<rparr>), Inr collection)))"

text \<open>\<open>[str(uuid.uuid4()) for _ in chunks]\<close>: one draw for each chunk.\<close>

fun uuid4_for_each :: "('rng \<Rightarrow> str \<times> 'rng) \<Rightarrow> 'rng \<Rightarrow> 'a list \<Rightarrow> str list \<times> 'rng" where
  "uuid4_for_each uuid4 g [] = ([], g)"
| "uuid4_for_each uuid4 g (c # cs) =
     (case uuid4 g of (u, g1) \<Rightarrow>
        (case uuid4_for_each uuid4 g1 cs of (us, g2) \<Rightarrow> (u # us, g2)))"



text \<open>
  Lines 46-49: \<open>padded_metadatas = metadatas[:]\<close>, the \<open>while\<close> loop that appends
  \<open>{}\<close> until the list is as long as \<open>chunks\<close>, and the slice \<open>[:len(chunks)]\<close>.
\<close>

function pad_to :: "nat \<Rightarrow> metadata list \<Rightarrow> metadata list" where
  "pad_to n padded_metadatas =
     (if length padded_metadatas < n then pad_to n (padded_metadatas @ [[]])
      else padded_metadatas)"
  by pat_completeness auto
termination
  by (relation "measure (\<lambda>(n, ms). n - length ms)") auto

declare pad_to.simps [simp del]

definition pad_metadatas :: "nat \<Rightarrow> metadata list \<Rightarrow> metadata list" where
  "pad_metadatas n ms = take n (pad_to n ms)"

text \<open>
  Lines 35-49 of \<open>add_documents_to_store\<close>: the defaults for \<open>metadatas\<close> and
  \<open>doc_ids\<close>, the regeneration of the ids and the padding of the metadata, giving the
  keyword arguments of \<open>collection.add\<close>.
\<close>

definition aligned_request ::
  "('rng \<Rightarrow> str \<times> 'rng) \<Rightarrow> ('db, 'rng) world \<Rightarrow> str list \<Rightarrow> embedding list \<Rightarrow>
   metadata list option \<Rightarrow> str list option \<Rightarrow> add_request \<times> ('db, 'rng) world" where
  "aligned_request uuid4 w chunks embeddings metadatas doc_ids =
     (let metadatas1 = (case metadatas of
              None \<Rightarrow> replicate (length chunks) []
            | Some ms \<Rightarrow> ms);
          (doc_ids1, w1) = (case doc_ids of
              None \<Rightarrow>
                (case uuid4_for_each uuid4 (entropy w) chunks of
                   (us, g) \<Rightarrow> (us, w\<lparr>entropy := g\<rparr>))
            | Some given \<Rightarrow>
                if length given \<noteq> length chunks
                then (let w' = say Warning_doc_ids_mismatch w
                      in case uuid4_for_each uuid4 (entropy w') chunks of
                           (us, g) \<Rightarrow> (us, w'\<lparr>entropy := g\<rparr>))
                else (given, w));
          (metadatas2, w2) =
             (if length metadatas1 \<noteq> length chunks
              then (pad_metadatas (length chunks) metadatas1,
                    say (Warning_metadatas_mismatch (length metadatas1) (length chunks)) w1)
              else (metadatas1, w1))
      in (\<lparr>req_embeddings = embeddings, req_documents = chunks,
           req_metadatas = metadatas2, req_ids = doc_ids1\<rparr>, w2))"

definition add_documents_to_store ::
  "('db, 'col) chroma_client \<Rightarrow> ('rng \<Rightarrow> str \<times> 'rng) \<Rightarrow> ('db, 'rng) world \<Rightarrow> str \<Rightarrow>
   str list \<Rightarrow> embedding list \<Rightarrow> metadata list option \<Rightarrow> str list option \<Rightarrow>
   ('db, 'rng) world \<times> (exn + unit)" where
  "add_documents_to_store client uuid4 w collection_name chunks embeddings metadatas doc_ids =
     (if chunks = [] \<or> embeddings = [] \<or> length chunks \<noteq> length embeddings
      then (say Error_chunks_embeddings w, Inr ())
      else
        (case get_or_create_collection client w collection_name of
           (w1, Inl e) \<Rightarrow> (w1, Inl e)
         | (w1, Inr collection) \<Rightarrow>
             (case aligned_request uuid4 w1 chunks embeddings metadatas doc_ids of
                (request, w2) \<Rightarrow>
                  (case collection_add client (store w2) collection request of
                     (db, Inl e) \<Rightarrow> (say (Error_adding e) (w2\<lparr>store := db\<rparr>), Inr ())
                   | (db, Inr _) \<Rightarrow>
                       (let w3 = say (Info_added (length chunks) collection_name) (w2\<lparr>store := db\<rparr>)
                        in case collection_count client (store w3) collection of
                             Inl e \<Rightarrow> (say (Error_adding e) w3, Inr ())
                           | Inr n \<Rightarrow> (say (Info_current_count collection_name n) w3, Inr ()))))))"

text \<open>An entry of the list returned by \<open>query_store\<close>.\<close>

record context_chunk =
  document :: str
  metadata :: "metadata option"
  distance :: "real option"

text \<open>\<open>xs[i]\<close> for \<open>i \<ge> 0\<close>: out of range raises \<open>IndexError\<close>.\<close>

definition item_at :: "'a list \<Rightarrow> nat \<Rightarrow> exn + 'a" where
  "item_at xs i = (if i < length xs then Inr (xs ! i) else Inl IndexError)"

text \<open>
  \<open>results[key][0][i] if results.get(key) and results[key][0] else default\<close>, where
  \<open>column\<close> is \<open>results.get(key)\<close>.
\<close>

definition column_item :: "'a list list option \<Rightarrow> nat \<Rightarrow> 'a \<Rightarrow> exn + 'a" where
  "column_item column i fallback =
     (case column of
        None \<Rightarrow> Inr fallback
      | Some [] \<Rightarrow> Inr fallback
      | Some (row # _) \<Rightarrow> if row = [] then Inr fallback else item_at row i)"

text \<open>The loop \<open>for i in range(num_results_retrieved)\<close> over the indices still to visit.\<close>

fun process_results :: "raw_result \<Rightarrow> nat list \<Rightarrow> exn + context_chunk list" where
  "process_results results [] = Inr []"
| "process_results results (i # rest) =
     (case column_item (res_documents results) i None of
        Inl e \<Rightarrow> Inl e
      | Inr doc \<Rightarrow>
          (case column_item (res_metadatas results) i (Some []) of
             Inl e \<Rightarrow> Inl e
           | Inr meta \<Rightarrow>
               (case column_item (map_option (map (map Some)) (res_distances results)) i None of
                  Inl e \<Rightarrow> Inl e
                | Inr dst \<Rightarrow>
                    (case process_results results rest of
                       Inl e \<Rightarrow> Inl e
                     | Inr processed \<Rightarrow>
                         Inr ((case doc of
                                 None \<Rightarrow> []
                               | Some d \<Rightarrow> [\<lparr>document = d, metadata = meta, distance = dst\<rparr>])
                              @ processed)))))"

text \<open>
  \<open>query_store\<close> returns \<open>None\<close>, or a list: \<open>Some []\<close> is the empty list. No exception
  leaves it, both \<open>try\<close> blocks catch every \<open>Exception\<close>.
\<close>

definition query_store ::
  "('db, 'col) chroma_client \<Rightarrow> ('db, 'rng) world \<Rightarrow> str \<Rightarrow> embedding \<Rightarrow> int \<Rightarrow>
   ('db, 'rng) world \<times> context_chunk list option" where
  "query_store client w collection_name query_embedding top_k =
     (case get_or_create_collection client w collection_name of
        (w1, Inl e) \<Rightarrow> (say (Error_get_or_create collection_name e) w1, None)
      | (w1, Inr collection) \<Rightarrow>
          (case collection_count client (store w1) collection of
             Inl e \<Rightarrow> (say (Error_get_or_create collection_name e) w1, None)
           | Inr n \<Rightarrow>
               if n = 0 then (say (Warning_empty_collection collection_name) w1, Some [])
               else
                 (case collection_count client (store w1) collection of
                    Inl e \<Rightarrow> (say (Error_querying collection_name e) w1, None)
                  | Inr n_again \<Rightarrow>
                      (case collection_query client (store w1) collection [query_embedding]
                              (min top_k (int n_again)) of
                         Inl e \<Rightarrow> (say (Error_querying collection_name e) w1, None)
                       | Inr None \<Rightarrow> (say (Info_no_results collection_name) w1, Some [])
                       | Inr (Some results) \<Rightarrow>
                           (case res_ids results of
                              None \<Rightarrow> (say (Info_no_results collection_name) w1, Some [])
                            | Some [] \<Rightarrow> (say (Info_no_results collection_name) w1, Some [])
                            | Some (ids0 # _) \<Rightarrow>
                                if ids0 = []
                                then (say (Info_no_results collection_name) w1, Some [])
                                else
                                  (case process_results results [0..<length ids0] of
                                     Inl e \<Rightarrow> (say (Error_querying collection_name e) w1, None)
                                   | Inr processed_results \<Rightarrow>
                                       (if processed_results = []
                                        then say Info_no_valid_results w1 else w1,
                                        Some processed_results)))))))"

section \<open>main.py: the query in ask\<close>

text \<open>
  Lines 118-123 of \<open>ask\<close>: \<open>if not context_chunks\<close> reports that no context was
  found and returns; otherwise the chunks go into the prompt.
\<close>

datatype ask_branch = No_relevant_context | Use_context "context_chunk list"

definition ask_after_query :: "context_chunk list option \<Rightarrow> ask_branch" where
  "ask_after_query context_chunks =
     (case context_chunks of
        None \<Rightarrow> No_relevant_context
      | Some [] \<Rightarrow> No_relevant_context
      | Some (c # cs) \<Rightarrow> Use_context (c # cs))"

section \<open>Sample collaborators\<close>

text \<open>
  A small client kept in memory, to run the functions on concrete inputs: a collection
  is a name with the ids stored under it. Looking up an unknown name raises, creating
  it gives an empty collection.
\<close>

type_synonym sample_db = "(str \<times> str list) list"

definition sample_client :: "(sample_db, str) chroma_client" where
  "sample_client =
     \<lparr>get_collection = (\<lambda>db name.
          case map_of db name of None \<Rightarrow> Inl ValueError | Some _ \<Rightarrow> Inr name),
      create_collection = (\<lambda>db name.
          case map_of db name of
            None \<Rightarrow> (db @ [(name, [])], Inr name)
          | Some _ \<Rightarrow> (db, Inl ValueError)),
      collection_count = (\<lambda>db col.
          case map_of db col of None \<Rightarrow> Inl ValueError | Some stored \<Rightarrow> Inr (length stored)),
      collection_add = (\<lambda>db col request.
          case map_of db col of
            None \<Rightarrow> (db, Inl ValueError)
          | Some stored \<Rightarrow>
              (map (\<lambda>(name, stored). (name, if name = col then stored @ req_ids request else stored)) db,
               Inr ())),
      collection_query = (\<lambda>db col query_embeddings n_results.
          case map_of db col of
            None \<Rightarrow> Inl ValueError
          | Some stored \<Rightarrow>
              Inr (Some \<lparr>res_ids = Some [take (nat n_results) stored],
                         res_documents = Some [map Some (take (nat n_results) stored)],
                         res_metadatas = None, res_distances = None\<rparr>))\<rparr>"

text \<open>The same client with an index that cannot be queried.\<close>

definition unavailable_client :: "(sample_db, str) chroma_client" where
  "unavailable_client =
     sample_client\<lparr>collection_query := (\<lambda>db col query_embeddings n_results. Inl BackendError)\<rparr>"


text \<open>A source of ids that never repeats: the \<open>n\<close>-th draw is \<open>n + 1\<close> letters long.\<close>

definition sample_uuid4 :: "nat \<Rightarrow> str \<times> nat" where
  "sample_uuid4 n = (py (replicate (Suc n) (CHR ''u'')), Suc n)"

definition sample_world :: "(sample_db, nat) world" where
  "sample_world = \<lparr>store = [(py ''docs'', [py ''a_0''])], entropy = 0, printed = []\<rparr>"

section \<open>Properties of the chunker\<close>

subsection \<open>Whitespace, paragraphs and windows\<close>

lemma length_py [simp]: "length (py s) = length s"
  by (simp add: py_def)

lemma py_eq_Nil [simp]: "py s = [] \<longleftrightarrow> s = []"
  by (simp add: py_def)

lemma strip_all_space:
  assumes "\<forall>c\<in>set s. isspace c"
  shows "strip s = []"
  using assms by (auto simp: strip_def dest: set_dropWhileD)

lemma set_cons_field: "\<Union>(set ` set (cons_field c fs)) = insert c (\<Union>(set ` set fs))"
  by (cases fs) auto

lemma set_split_blank: "\<Union>(set ` set (split_blank t)) \<subseteq> set t"
  by (induction t rule: split_blank.induct) (auto simp: set_cons_field)

lemma split_blank_chars: "f \<in> set (split_blank t) \<Longrightarrow> c \<in> set f \<Longrightarrow> c \<in> set t"
  using set_split_blank [of t] by auto

lemma paragraphs_of_all_space:
  assumes "\<forall>c\<in>set t. isspace c"
  shows "paragraphs_of t = []"
proof -
  have "strip f = []" if "f \<in> set (split_blank t)" for f
    using that assms by (intro strip_all_space) (blast dest: split_blank_chars)
  then show ?thesis
    by (simp add: paragraphs_of_def filter_empty_conv)
qed

lemma range_up_bounds: "x \<in> set (range_up i stop step) \<Longrightarrow> i \<le> x \<and> x < stop"
proof (induction i stop step rule: range_up.induct)
  case (1 i stop step)
  then show ?case
    by (subst (asm) (2) range_up.simps) (auto split: if_splits)
qed

lemma length_py_slice:
  assumes "0 \<le> i" and "0 \<le> n"
  shows "int (length (py_slice xs i (i + n))) \<le> n"
  using assms by (auto simp: py_slice_def slice_bound_def Let_def)

lemma hard_split_valid:
  assumes "0 \<le> overlap" and "overlap < csize"
  shows "\<exists>ws. hard_split s csize overlap = Inr ws
            \<and> (\<forall>w\<in>set ws. int (length w) \<le> csize)"
  using assms
  by (auto simp: hard_split_def py_range_def dest!: range_up_bounds intro!: length_py_slice)

subsection \<open>Every chunk fits the chunk size\<close>

lemma chunk_step_bounded:
  assumes "0 \<le> overlap" and "overlap < csize"
    and "bounded_state csize st"
  shows "\<exists>st'. chunk_step csize overlap st p = Inr st' \<and> bounded_state csize st'"
proof (cases st)
  case (Pair all_chunks current_chunk)
  obtain ws where ws: "hard_split p csize overlap = Inr ws"
      "\<forall>w\<in>set ws. int (length w) \<le> csize"
    using hard_split_valid [OF assms(1,2)] by blast
  show ?thesis
    using assms(3) ws unfolding Pair
    by (auto simp: bounded_state_def emit_def)
qed

lemma chunk_loop_bounded:
  assumes "0 \<le> overlap" and "overlap < csize"
  shows "bounded_state csize st \<Longrightarrow>
    \<exists>st'. chunk_loop csize overlap st ps = Inr st' \<and> bounded_state csize st'"
proof (induction ps arbitrary: st)
  case Nil
  then show ?case by simp
next
  case (Cons p ps)
  obtain st1 where "chunk_step csize overlap st p = Inr st1" "bounded_state csize st1"
    using chunk_step_bounded [OF assms Cons.prems] by blast
  then show ?case
    using Cons.IH [of st1] by simp
qed

lemma all_chunks_of_bounded:
  assumes "0 \<le> overlap" and "overlap < csize"
  shows "\<exists>cs. all_chunks_of t csize overlap = Inr cs
            \<and> (\<forall>c\<in>set cs. int (length c) \<le> csize)"
proof -
  have "bounded_state csize ([], [])"
    using assms by (simp add: bounded_state_def)
  then obtain st' where st': "chunk_loop csize overlap ([], []) (paragraphs_of t) = Inr st'"
      "bounded_state csize st'"
    using chunk_loop_bounded [OF assms] by blast
  then show ?thesis
    by (cases st') (auto simp: all_chunks_of_def bounded_state_def emit_def)
qed

text \<open>
  C2. With \<open>chunk_size > 0\<close> and \<open>0 \<le> chunk_overlap < chunk_size\<close> the chunker
  returns a list for every text, and every chunk in it is still non-empty after trimming
  and has at most \<open>chunk_size\<close> characters.
\<close>

theorem chunks_nonblank_and_bounded:
  assumes "0 < csize" and "0 \<le> overlap" and "overlap < csize"
  shows "\<exists>chunks. simple_chunker t csize overlap = Inr chunks
            \<and> (\<forall>c\<in>set chunks. strip c \<noteq> [] \<and> int (length c) \<le> csize)"
  using all_chunks_of_bounded [OF assms(2,3), of t]
  by (auto simp: simple_chunker_def)

theorem chunks_nonblank_and_bounded_witness:
  "(0::int) < 5 \<and> (0::int) \<le> 0 \<and> (0::int) < 5
   \<and> (\<exists>chunks. simple_chunker (py ''a       b  c'') 5 0 = Inr chunks
          \<and> (\<forall>c\<in>set chunks. strip c \<noteq> [] \<and> int (length c) \<le> 5))"
  using chunks_nonblank_and_bounded [of 5 0 "py ''a       b  c''"] by simp

subsection \<open>The hard split of a long paragraph\<close>

lemma range_2500: "range_up 0 2500 850 = [0, 850, 1700]"
  by code_simp

lemma hard_split_2500:
  assumes "length p = 2500"
  shows "hard_split p 1000 150 = Inr [take 1000 p, take 1000 (drop 850 p), take 1000 (drop 1700 p)]"
  using assms
  by (simp add: hard_split_def py_range_def range_2500 py_slice_def slice_bound_def)

lemma split_blank_no_newline: "newline \<notin> set s \<Longrightarrow> split_blank s = [s]"
  by (induction s rule: split_blank.induct) auto

lemma strip_unchanged:
  assumes "s \<noteq> []" and "\<not> isspace (hd s)" and "\<not> isspace (last s)"
  shows "strip s = s"
proof -
  have "dropWhile isspace s = s"
    using assms by (cases s) auto
  moreover have "dropWhile isspace (rev s) = rev s"
    using assms by (cases "rev s") (auto simp: last_rev hd_rev)
  ultimately show ?thesis by (simp add: strip_def)
qed

lemma strip_replicate: "0 < n \<Longrightarrow> \<not> isspace x \<Longrightarrow> strip (replicate n x) = replicate n x"
  by (intro strip_unchanged) auto

lemma paragraphs_replicate:
  "0 < n \<Longrightarrow> \<not> isspace x \<Longrightarrow> x \<noteq> newline \<Longrightarrow>
     paragraphs_of (replicate n x) = [replicate n x]"
  by (simp add: paragraphs_of_def split_blank_no_newline strip_replicate)

lemma py_replicate: "py (replicate n c) = replicate n (of_char c)"
  by (simp add: py_def)

lemma letter_a: "\<not> isspace 97" "97 \<noteq> newline"
  by (simp_all add: isspace_def newline_def)

text \<open>
  C8. A text of 2500 characters that is one trimmed paragraph, chunked with
  \<open>chunk_size = 1000\<close> and \<open>chunk_overlap = 150\<close>, is hard-split into exactly three
  windows, which start at the offsets 0, 850 and 1700 and have 1000, 1000 and 800
  characters. They are the chunks collected by the loop, and the chunker returns them
  after its final filter, which keeps each window that is not whitespace only.
\<close>

theorem paragraph_2500_three_windows:
  assumes "length p = 2500" and "paragraphs_of p = [p]"
  shows "hard_split p 1000 150 = Inr [take 1000 p, take 1000 (drop 850 p), take 1000 (drop 1700 p)]
    \<and> all_chunks_of p 1000 150 = Inr [take 1000 p, take 1000 (drop 850 p), take 1000 (drop 1700 p)]
    \<and> map length [take 1000 p, take 1000 (drop 850 p), take 1000 (drop 1700 p)] = [1000, 1000, 800]
    \<and> simple_chunker p 1000 150 =
        Inr (filter (\<lambda>chunk. strip chunk \<noteq> []) [take 1000 p, take 1000 (drop 850 p), take 1000 (drop 1700 p)])"
proof -
  note hs = hard_split_2500 [OF assms(1)]
  have ac: "all_chunks_of p 1000 150 = Inr [take 1000 p, take 1000 (drop 850 p), take 1000 (drop 1700 p)]"
    using assms by (simp add: all_chunks_of_def hs)
  have "p \<noteq> []" using assms(1) by auto
  then have "simple_chunker p 1000 150 =
        Inr (filter (\<lambda>chunk. strip chunk \<noteq> []) [take 1000 p, take 1000 (drop 850 p), take 1000 (drop 1700 p)])"
    by (simp add: simple_chunker_def ac)
  then show ?thesis
    using hs ac assms(1) by simp
qed

theorem paragraph_2500_three_windows_witness:
  "length (py (replicate 2500 (CHR ''a''))) = 2500
   \<and> paragraphs_of (py (replicate 2500 (CHR ''a''))) = [py (replicate 2500 (CHR ''a''))]
   \<and> simple_chunker (py (replicate 2500 (CHR ''a''))) 1000 150 =
      Inr [py (replicate 1000 (CHR ''a'')), py (replicate 1000 (CHR ''a'')), py (replicate 800 (CHR ''a''))]"
proof -
  have "paragraphs_of (py (replicate 2500 (CHR ''a''))) = [py (replicate 2500 (CHR ''a''))]"
    by (simp add: py_replicate paragraphs_replicate letter_a)
  from paragraph_2500_three_windows [OF _ this] show ?thesis
    by (simp add: py_replicate paragraphs_replicate strip_replicate letter_a)
qed

subsection \<open>Configurations with an overlap that is not below the chunk size\<close>

lemma chunk_step_error:
  assumes "fits cs st"
  shows "(chunk_step cs co st p = Inl e \<longleftrightarrow> e = ValueError \<and> co = cs \<and> cs < int (length p))
       \<and> (\<forall>st'. chunk_step cs co st p = Inr st' \<longrightarrow> fits cs st')"
proof (cases st)
  case (Pair a c)
  show ?thesis
  proof (cases "co = cs")
    case True
    have "hard_split p cs cs = Inl ValueError"
      by (simp add: hard_split_def py_range_def)
    then show ?thesis
      using assms True unfolding Pair by (auto simp: fits_def emit_def)
  next
    case False
    then obtain ws where "hard_split p cs co = Inr ws"
      by (cases "cs < co") (auto simp: hard_split_def py_range_def)
    then show ?thesis
      using assms False unfolding Pair by (auto simp: fits_def emit_def)
  qed
qed

lemma chunk_loop_error:
  "fits cs st \<Longrightarrow>
   (chunk_loop cs co st ps = Inl e \<longleftrightarrow> e = ValueError \<and> co = cs \<and> (\<exists>p\<in>set ps. cs < int (length p)))
   \<and> (\<forall>st'. chunk_loop cs co st ps = Inr st' \<longrightarrow> fits cs st')"
proof (induction ps arbitrary: st)
  case Nil
  then show ?case by simp
next
  case (Cons p ps)
  note step = chunk_step_error [OF Cons.prems, of co p]
  show ?case
  proof (cases "chunk_step cs co st p")
    case (Inl x)
    then show ?thesis using step [of x] by auto
  next
    case (Inr m)
    then have "fits cs m" using step [of e] by simp
    from Cons.IH [OF this] Inr step [of e] show ?thesis by auto
  qed
qed

lemma all_chunks_of_error:
  "all_chunks_of t cs co = Inl e \<longleftrightarrow>
     e = ValueError \<and> co = cs \<and> (\<exists>p\<in>set (paragraphs_of t). cs < int (length p))"
proof -
  have f: "fits cs ([], [])" by (simp add: fits_def)
  note loop = chunk_loop_error [OF f, of co "paragraphs_of t" e]
  show ?thesis
  proof (cases "chunk_loop cs co ([], []) (paragraphs_of t)")
    case (Inl x)
    then show ?thesis using loop by (auto simp: all_chunks_of_def)
  next
    case (Inr m)
    then have "fits cs m" using loop by simp
    then show ?thesis using Inr loop
      by (cases m) (auto simp: all_chunks_of_def fits_def emit_def)
  qed
qed

lemma simple_chunker_error:
  "simple_chunker t cs co = Inl e \<longleftrightarrow>
     e = ValueError \<and> co = cs \<and> (\<exists>p\<in>set (paragraphs_of t). cs < int (length p))"
proof (cases "t = []")
  case True
  then show ?thesis by (simp add: simple_chunker_def paragraphs_of_def strip_def)
next
  case False
  then show ?thesis
    using all_chunks_of_error [of t cs co e]
    by (auto simp: simple_chunker_def split: sum.splits)
qed


lemma configure_reaches_chunker:
  "chunk_with_state (fst (configure st (Some a) (Some b) k)) t = simple_chunker t a b"
  by (cases k) (simp_all add: configure_def chunk_with_state_def)

text \<open>
  C1, as the code has it. Neither \<open>configure\<close> nor the chunker checks the
  configuration: the values given to \<open>configure\<close> reach the chunker as they are, for
  every pair of them. The chunker raises in exactly one situation, the \<open>ValueError\<close> of
  \<open>range\<close> with a zero stride, when \<open>chunk_overlap = chunk_size\<close> and some paragraph is
  longer than \<open>chunk_size\<close>; for every other input, also with
  \<open>chunk_overlap \<ge> chunk_size\<close>, it returns a list.
\<close>

theorem chunker_has_no_configuration_check:
  "chunk_with_state (fst (configure st (Some a) (Some b) k)) t = simple_chunker t a b
   \<and> ((simple_chunker t cs co = Inl e) =
        (e = ValueError \<and> co = cs \<and> (\<exists>p\<in>set (paragraphs_of t). cs < int (length p))))"
  using configure_reaches_chunker [of st a b k t] simple_chunker_error [of t cs co e]
  by simp

theorem chunker_has_no_configuration_check_witness:
  "chunk_with_state (fst (configure APP_STATE (Some 3) (Some 3) None)) (py ''abcdefgh'')
     = simple_chunker (py ''abcdefgh'') 3 3
   \<and> simple_chunker (py ''abcdefgh'') 3 3 = Inl ValueError
   \<and> paragraphs_of (py ''abcdefgh'') = [py ''abcdefgh'']"
proof -
  have "paragraphs_of (py ''abcdefgh'') = [py ''abcdefgh'']"
    by code_simp
  then show ?thesis
    using chunker_has_no_configuration_check [of APP_STATE 3 3 None "py ''abcdefgh''" 3 3 ValueError]
    by simp
qed

text \<open>
  C1 as stated fails: a configuration with \<open>chunk_overlap = chunk_size = 1000\<close> is
  stored, and the chunker called with it returns the chunk of a short text; with
  \<open>chunk_overlap = chunk_size = 3\<close> the zero stride is met in the middle of the chunking,
  as the \<open>ValueError\<close> of \<open>range\<close>; with \<open>chunk_overlap = 5 > chunk_size = 3\<close> the
  chunker returns no chunk at all and no error.
\<close>

theorem overlap_not_rejected_counterexample:
  "chunk_with_state (fst (configure APP_STATE (Some 1000) (Some 1000) None)) (py ''short text'')
     = Inr [py ''short text'']
   \<and> simple_chunker (py ''abcdefgh'') 3 3 = Inl ValueError
   \<and> simple_chunker (py ''abcdefgh'') 3 5 = Inr []"
proof (intro conjI)
  show "chunk_with_state (fst (configure APP_STATE (Some 1000) (Some 1000) None)) (py ''short text'')
     = Inr [py ''short text'']"
    by code_simp
  show "simple_chunker (py ''abcdefgh'') 3 3 = Inl ValueError"
    by code_simp
  show "simple_chunker (py ''abcdefgh'') 3 5 = Inr []"
    by code_simp
qed

subsection \<open>The number of chunks and the chunk size\<close>

lemma hard_split_positive_stride:
  "co < cs \<Longrightarrow> hard_split p cs co =
     Inr (map (\<lambda>i. py_slice p i (i + cs)) (range_up 0 (int (length p)) (cs - co)))"
  by (simp add: hard_split_def py_range_def)

lemma range_up_mono:
  "0 < step2 \<Longrightarrow> step2 \<le> step1 \<Longrightarrow> i \<le> j \<Longrightarrow>
     length (range_up j stop step1) \<le> length (range_up i stop step2)"
proof (induction j stop step1 arbitrary: i rule: range_up.induct)
  case (1 j stop step1)
  show ?case
  proof (cases "0 < step1 \<and> j < stop")
    case True
    then have "length (range_up (j + step1) stop step1) \<le> length (range_up (i + step2) stop step2)"
      using "1.prems" by (intro "1.IH") auto
    moreover have "range_up j stop step1 = j # range_up (j + step1) stop step1"
      using True by (subst range_up.simps) simp
    moreover have "range_up i stop step2 = i # range_up (i + step2) stop step2"
      using True "1.prems" by (subst range_up.simps) simp
    ultimately show ?thesis by simp
  next
    case False
    then have "range_up j stop step1 = []"
      by (subst range_up.simps) auto
    then show ?thesis by simp
  qed
qed

lemma range_up_two:
  assumes "0 < step" and "step < stop"
  shows "2 \<le> length (range_up 0 stop step)"
proof -
  have "range_up 0 stop step = 0 # range_up step stop step"
    using assms by (subst range_up.simps) simp
  also have "range_up step stop step = step # range_up (step + step) stop step"
    using assms by (subst range_up.simps) simp
  finally show ?thesis by simp
qed

lemma chunk_step_behind:
  assumes cfg: "0 \<le> co" "co < s2" "s2 \<le> s1"
    and b1: "int (length (snd st1)) \<le> s1" and b2: "int (length (snd st2)) \<le> s2"
    and beh: "behind st1 st2" and p: "p \<noteq> []"
  shows "\<exists>st1' st2'. chunk_step s1 co st1 p = Inr st1' \<and> chunk_step s2 co st2 p = Inr st2'
           \<and> int (length (snd st1')) \<le> s1 \<and> int (length (snd st2')) \<le> s2 \<and> behind st1' st2'"
proof -
  obtain a1 c1 a2 c2 where st: "st1 = (a1, c1)" "st2 = (a2, c2)"
    by (cases st1, cases st2) auto
  have mono: "length (range_up 0 (int (length p)) (s1 - co))
                \<le> length (range_up 0 (int (length p)) (s2 - co))"
    using cfg by (intro range_up_mono) auto
  have two: "2 \<le> length (range_up 0 (int (length p)) (s2 - co))" if "s2 < int (length p)"
    using cfg that by (intro range_up_two) auto
  have h1: "hard_split p s1 co = Inr (map (\<lambda>i. py_slice p i (i + s1)) (range_up 0 (int (length p)) (s1 - co)))"
    using cfg by (intro hard_split_positive_stride) auto
  have h2: "hard_split p s2 co = Inr (map (\<lambda>i. py_slice p i (i + s2)) (range_up 0 (int (length p)) (s2 - co)))"
    using cfg by (intro hard_split_positive_stride) auto
  show ?thesis
    using cfg b1 b2 beh p mono two unfolding st
    by (auto simp: h1 h2 emit_def behind_def pending_def)
qed


lemma chunk_loop_behind:
  assumes cfg: "0 \<le> co" "co < s2" "s2 \<le> s1"
  shows "int (length (snd st1)) \<le> s1 \<Longrightarrow> int (length (snd st2)) \<le> s2 \<Longrightarrow> behind st1 st2 \<Longrightarrow>
     \<forall>p\<in>set ps. p \<noteq> [] \<Longrightarrow>
     \<exists>st1' st2'. chunk_loop s1 co st1 ps = Inr st1' \<and> chunk_loop s2 co st2 ps = Inr st2'
           \<and> int (length (snd st1')) \<le> s1 \<and> int (length (snd st2')) \<le> s2 \<and> behind st1' st2'"
proof (induction ps arbitrary: st1 st2)
  case Nil
  then show ?case by simp
next
  case (Cons p ps)
  then have "p \<noteq> []" by simp
  from chunk_step_behind [OF cfg Cons.prems(1,2,3) this]
  obtain m1 m2 where m: "chunk_step s1 co st1 p = Inr m1" "chunk_step s2 co st2 p = Inr m2"
      "int (length (snd m1)) \<le> s1" "int (length (snd m2)) \<le> s2" "behind m1 m2"
    by blast
  have "\<forall>p\<in>set ps. p \<noteq> []"
    using Cons.prems(4) by simp
  from Cons.IH [OF m(3,4,5) this] show ?case
    using m(1,2) by simp
qed

lemma paragraphs_of_nonempty: "p \<in> set (paragraphs_of t) \<Longrightarrow> p \<noteq> []"
  by (auto simp: paragraphs_of_def)

lemma all_chunks_of_pending:
  assumes "chunk_loop cs co ([], []) (paragraphs_of t) = Inr st" and "int (length (snd st)) \<le> cs"
  shows "\<exists>r. all_chunks_of t cs co = Inr r \<and> length r = pending st"
  using assms by (cases st) (auto simp: all_chunks_of_def emit_def pending_def)

text \<open>
  C3, as the code has it. For a fixed overlap and two valid chunk sizes \<open>s2 \<le> s1\<close>, the
  list of chunks collected before the final filter is at least as long for \<open>s2\<close> as for
  \<open>s1\<close>, for every text.
\<close>

theorem unfiltered_count_monotone:
  assumes "0 \<le> co" and "co < s2" and "s2 \<le> s1"
  shows "\<exists>r1 r2. all_chunks_of t s1 co = Inr r1 \<and> all_chunks_of t s2 co = Inr r2
           \<and> length r1 \<le> length r2"
proof -
  have start: "int (length (snd ([], []) :: str)) \<le> s1" "int (length (snd ([], []) :: str)) \<le> s2"
    "behind ([], []) ([], [])"
    using assms by (auto simp: behind_def)
  have "\<forall>p\<in>set (paragraphs_of t). p \<noteq> []"
    by (simp add: paragraphs_of_nonempty)
  from chunk_loop_behind [OF assms start this]
  obtain e1 e2 where e: "chunk_loop s1 co ([], []) (paragraphs_of t) = Inr e1"
      "chunk_loop s2 co ([], []) (paragraphs_of t) = Inr e2"
      "int (length (snd e1)) \<le> s1" "int (length (snd e2)) \<le> s2" "behind e1 e2"
    by blast
  obtain r1 r2 where "all_chunks_of t s1 co = Inr r1" "length r1 = pending e1"
      "all_chunks_of t s2 co = Inr r2" "length r2 = pending e2"
    using all_chunks_of_pending [OF e(1,3)] all_chunks_of_pending [OF e(2,4)] by blast
  then show ?thesis
    using e(5) by (auto simp: behind_def)
qed

theorem unfiltered_count_monotone_witness:
  "(0::int) \<le> 0 \<and> (0::int) < 4 \<and> (4::int) \<le> 5
   \<and> all_chunks_of (py ''a       b  c'') 5 0 = Inr [py ''a    '', py ''   b '', py '' c'']
   \<and> all_chunks_of (py ''a       b  c'') 4 0 = Inr [py ''a   '', py ''    '', py ''b  c'']
   \<and> length [py ''a    '', py ''   b '', py '' c''] \<le> length [py ''a   '', py ''    '', py ''b  c'']"
proof -
  have "all_chunks_of (py ''a       b  c'') 5 0 = Inr [py ''a    '', py ''   b '', py '' c'']"
    by code_simp
  moreover have "all_chunks_of (py ''a       b  c'') 4 0 = Inr [py ''a   '', py ''    '', py ''b  c'']"
    by code_simp
  ultimately show ?thesis
    using unfiltered_count_monotone [of 0 4 5 "py ''a       b  c''"] by simp
qed

text \<open>
  C3 as stated fails, because the final filter drops the windows that are whitespace
  only: the paragraph \<open>"a       b  c"\<close> with overlap 0 gives three chunks for the chunk
  size 5 and two chunks for the chunk size 4.
\<close>

theorem count_not_monotone_counterexample:
  "simple_chunker (py ''a       b  c'') 5 0 = Inr [py ''a    '', py ''   b '', py '' c'']
   \<and> simple_chunker (py ''a       b  c'') 4 0 = Inr [py ''a   '', py ''b  c'']
   \<and> (0::int) \<le> 0 \<and> (0::int) < 4 \<and> (4::int) < 5
   \<and> length [py ''a   '', py ''b  c''] < length [py ''a    '', py ''   b '', py '' c'']"
proof -
  have "simple_chunker (py ''a       b  c'') 5 0 = Inr [py ''a    '', py ''   b '', py '' c'']"
    by code_simp
  moreover have "simple_chunker (py ''a       b  c'') 4 0 = Inr [py ''a   '', py ''b  c'']"
    by code_simp
  ultimately show ?thesis by simp
qed


subsection \<open>Degenerate texts\<close>

lemma paragraphs_short_text: "paragraphs_of (py ''short text'') = [py ''short text'']"
  by code_simp

lemma strip_short_text: "strip (py ''short text'') = py ''short text''"
  by code_simp

text \<open>
  C9. The empty string gives the empty list and no error, whatever the configuration,
  and \<open>"short text"\<close> with \<open>chunk_size = 1000\<close> gives one chunk, the input itself,
  which is its own trimmed form.
\<close>

theorem empty_and_short_text:
  "simple_chunker [] csize overlap = Inr []
   \<and> simple_chunker (py ''short text'') 1000 overlap = Inr [py ''short text'']
   \<and> strip (py ''short text'') = py ''short text''"
proof (intro conjI)
  show "simple_chunker [] csize overlap = Inr []"
    by (simp add: simple_chunker_def)
  show "simple_chunker (py ''short text'') 1000 overlap = Inr [py ''short text'']"
    by (simp add: simple_chunker_def all_chunks_of_def paragraphs_short_text emit_def
        strip_short_text)
  show "strip (py ''short text'') = py ''short text''"
    by (rule strip_short_text)
qed

text \<open>
  C10. A non-empty text made of whitespace only (blanks, tabs, newlines, blank lines)
  leaves no paragraph after trimming, and the chunker returns the empty list: no error
  and no whitespace chunk, for every configuration.
\<close>

theorem whitespace_only_text_gives_no_chunks:
  assumes "t \<noteq> []" and "\<forall>c\<in>set t. isspace c"
  shows "paragraphs_of t = [] \<and> simple_chunker t csize overlap = Inr []"
  using assms paragraphs_of_all_space [of t]
  by (simp add: simple_chunker_def all_chunks_of_def)

theorem whitespace_only_text_gives_no_chunks_witness:
  "(py '' '') @ [newline, newline, 9, newline] \<noteq> []
   \<and> list_all isspace ((py '' '') @ [newline, newline, 9, newline])
   \<and> paragraphs_of ((py '' '') @ [newline, newline, 9, newline]) = []
   \<and> simple_chunker ((py '' '') @ [newline, newline, 9, newline]) 1000 150 = Inr []"
proof -
  have sp: "\<forall>c\<in>set ((py '' '') @ [newline, newline, 9, newline]). isspace c"
    by (simp add: isspace_def newline_def py_def)
  show ?thesis
    using sp whitespace_only_text_gives_no_chunks
      [of "(py '' '') @ [newline, newline, 9, newline]" 1000 150]
    by (simp add: list_all_iff)
qed

section \<open>Properties of the vector store manager\<close>

subsection \<open>Adding documents\<close>

lemma length_uuid4_for_each: "length (fst (uuid4_for_each uuid4 g cs)) = length cs"
proof (induction cs arbitrary: g)
  case Nil
  show ?case by simp
next
  case (Cons c cs)
  obtain u g1 where d: "uuid4 g = (u, g1)"
    by (cases "uuid4 g")
  obtain us g2 where r: "uuid4_for_each uuid4 g1 cs = (us, g2)"
    by (cases "uuid4_for_each uuid4 g1 cs")
  show ?case
    using Cons.IH [of g1] by (simp add: d r)
qed


















subsection \<open>Rejected input\<close>

text \<open>
  C5. When \<open>chunks\<close> is empty, or \<open>embeddings\<close> is empty, or their lengths differ,
  \<open>add_documents_to_store\<close> prints its error line and returns without an exception:
  the client is not called, and the store and the source of ids are unchanged.
\<close>

theorem invalid_add_is_a_reported_noop:
  assumes "chunks = [] \<or> embeddings = [] \<or> length chunks \<noteq> length embeddings"
  shows "add_documents_to_store client uuid4 w name chunks embeddings metadatas doc_ids
           = (w\<lparr>printed := printed w @ [Error_chunks_embeddings]\<rparr>, Inr ())
    \<and> store (fst (add_documents_to_store client uuid4 w name chunks embeddings metadatas doc_ids))
        = store w"
  using assms by (auto simp: add_documents_to_store_def say_def)

theorem invalid_add_is_a_reported_noop_witness:
  "add_documents_to_store sample_client sample_uuid4 sample_world (py ''docs'')
       [py ''x'', py ''y'', py ''z''] [[], []] None None
     = (sample_world\<lparr>printed := printed sample_world @ [Error_chunks_embeddings]\<rparr>, Inr ())
   \<and> store (fst (add_documents_to_store sample_client sample_uuid4 sample_world (py ''docs'')
       [py ''x'', py ''y'', py ''z''] [[], []] None None)) = [(py ''docs'', [py ''a_0''])]"
  using invalid_add_is_a_reported_noop [of "[py ''x'', py ''y'', py ''z'']" "[[], []]"
      sample_client sample_uuid4 sample_world "py ''docs''" None None]
  by (simp add: sample_world_def)

subsection \<open>Querying\<close>

text \<open>
  C6. A query on a collection with zero records returns the empty list and not
  \<open>None\<close>: both for a collection that exists and is empty, and for a name the client
  does not know, which is created first (the store is then the one with the new
  collection).
\<close>

theorem query_of_empty_collection_is_empty:
  "(get_collection client (store w) name = Inr col
      \<and> collection_count client (store w) col = Inr 0 \<longrightarrow>
        snd (query_store client w name q top_k) = Some []
        \<and> store (fst (query_store client w name q top_k)) = store w)
   \<and> (get_collection client (store w) name = Inl e
      \<and> create_collection client (store w) name = (db, Inr col)
      \<and> collection_count client db col = Inr 0 \<longrightarrow>
        snd (query_store client w name q top_k) = Some []
        \<and> store (fst (query_store client w name q top_k)) = db)"
  by (auto simp: query_store_def get_or_create_collection_def say_def Let_def)

theorem query_of_empty_collection_is_empty_witness:
  "get_collection sample_client (store sample_world) (py ''never_seen'') = Inl ValueError
   \<and> create_collection sample_client (store sample_world) (py ''never_seen'')
       = ([(py ''docs'', [py ''a_0'']), (py ''never_seen'', [])], Inr (py ''never_seen''))
   \<and> collection_count sample_client [(py ''docs'', [py ''a_0'']), (py ''never_seen'', [])] (py ''never_seen'') = Inr 0
   \<and> snd (query_store sample_client sample_world (py ''never_seen'') [] 5) = Some []
   \<and> store (fst (query_store sample_client sample_world (py ''never_seen'') [] 5))
       = [(py ''docs'', [py ''a_0'']), (py ''never_seen'', [])]"
proof -
  have g: "get_collection sample_client (store sample_world) (py ''never_seen'') = Inl ValueError"
    by code_simp
  have c: "create_collection sample_client (store sample_world) (py ''never_seen'')
       = ([(py ''docs'', [py ''a_0'']), (py ''never_seen'', [])], Inr (py ''never_seen''))"
    by code_simp
  have n: "collection_count sample_client [(py ''docs'', [py ''a_0'']), (py ''never_seen'', [])] (py ''never_seen'') = Inr 0"
    by code_simp
  show ?thesis
    using query_of_empty_collection_is_empty [where client = sample_client and w = sample_world
        and name = "py ''never_seen''" and e = ValueError and col = "py ''never_seen''"
        and db = "[(py ''docs'', [py ''a_0'']), (py ''never_seen'', [])]" and q = "[]" and top_k = 5]
      g c n
    by simp
qed

text \<open>
  C7. When the query of the index raises, \<open>query_store\<close> prints the error and returns
  \<open>None\<close>; so it does when the collection cannot be obtained or counted. A collection
  with zero records gives the empty list instead, and \<open>None\<close> is not the empty list: the
  caller can tell the two apart.
\<close>

theorem index_failure_is_unavailable:
  "(get_or_create_collection client w name = (w1, Inr col)
      \<and> collection_count client (store w1) col = Inr n \<and> 0 < n
      \<and> collection_query client (store w1) col [q] (min top_k (int n)) = Inl e \<longrightarrow>
        query_store client w name q top_k = (say (Error_querying name e) w1, None))
   \<and> (get_or_create_collection client w name = (w1, Inr col)
      \<and> collection_count client (store w1) col = Inl e \<longrightarrow>
        query_store client w name q top_k = (say (Error_get_or_create name e) w1, None))
   \<and> (get_or_create_collection client w name = (w1, Inl e) \<longrightarrow>
        query_store client w name q top_k = (say (Error_get_or_create name e) w1, None))
   \<and> (get_or_create_collection client w name = (w1, Inr col)
      \<and> collection_count client (store w1) col = Inr 0 \<longrightarrow>
        query_store client w name q top_k = (say (Warning_empty_collection name) w1, Some []))
   \<and> (None :: context_chunk list option) \<noteq> Some []"
  by (auto simp: query_store_def)

theorem index_failure_is_unavailable_witness:
  "get_or_create_collection unavailable_client sample_world (py ''docs'')
     = (say (Info_using_existing (py ''docs'')) sample_world, Inr (py ''docs''))
   \<and> collection_count unavailable_client (store (say (Info_using_existing (py ''docs'')) sample_world)) (py ''docs'') = Inr 1
   \<and> collection_query unavailable_client (store (say (Info_using_existing (py ''docs'')) sample_world)) (py ''docs'')
         [[]] (min 5 (int 1)) = Inl BackendError
   \<and> snd (query_store unavailable_client sample_world (py ''docs'') [] 5) = None
   \<and> snd (query_store sample_client sample_world (py ''never_seen'') [] 5) = Some []"
proof -
  have g: "get_or_create_collection unavailable_client sample_world (py ''docs'')
     = (say (Info_using_existing (py ''docs'')) sample_world, Inr (py ''docs''))"
    by code_simp
  have n: "collection_count unavailable_client (store (say (Info_using_existing (py ''docs'')) sample_world)) (py ''docs'') = Inr 1"
    by code_simp
  have f: "collection_query unavailable_client (store (say (Info_using_existing (py ''docs'')) sample_world)) (py ''docs'')
         [[]] (min 5 (int 1)) = Inl BackendError"
    by code_simp
  have e: "snd (query_store sample_client sample_world (py ''never_seen'') [] 5) = Some []"
    by code_simp
  show ?thesis
    using index_failure_is_unavailable [where client = unavailable_client and w = sample_world
        and name = "py ''docs''" and ?w1.0 = "say (Info_using_existing (py ''docs'')) sample_world"
        and col = "py ''docs''" and n = 1 and q = "[]" and top_k = 5 and e = BackendError]
      g n f e
    by simp
qed

text \<open>
  What \<open>ask\<close> does with the two results: \<open>if not context_chunks\<close> takes the same
  branch for \<open>None\<close> and for the empty list.
\<close>

lemma ask_after_query_same_branch:
  "ask_after_query None = No_relevant_context \<and> ask_after_query (Some []) = No_relevant_context"
  by (simp add: ask_after_query_def)


end
